theory Spec2Isabelle
  imports Main "HOL-Library.Char_ord" "HOL-Library.List_Lexorder"
begin

section \<open>Errors\<close>

text \<open>
  The error values of package \<open>volume\<close> (\<open>volume.go\<close>, the \<open>var\<close> block) are
  sentinels that callers compare by identity; each is a constructor. Every other Go
  error (made by \<open>errors.New\<close> or \<open>fmt.Errorf\<close>, returned by a system call or by the
  key-value store) is \<open>Errorf\<close> with its message.
\<close>

datatype error =
    ErrExist
  | ErrDriverNotFound
  | ErrEnoEnt
  | ErrEnomem
  | ErrEinval
  | ErrVolDetached
  | ErrVolAttached
  | ErrVolHasSnaps
  | ErrNotSupported
  | Errorf string

text \<open>The method \<open>Error()\<close> of an error value: its message.\<close>

fun Error_text :: "error \<Rightarrow> string" where
  "Error_text ErrExist = ''Driver already exists''"
| "Error_text ErrDriverNotFound = ''Driver implementation not found''"
| "Error_text ErrEnoEnt = ''Volume does not exist.''"
| "Error_text ErrEnomem = ''Out of memory.''"
| "Error_text ErrEinval = ''Invalid argument''"
| "Error_text ErrVolDetached = ''Volume is detached''"
| "Error_text ErrVolAttached = ''Volume is attached''"
| "Error_text ErrVolHasSnaps = ''Volume has snapshots associated''"
| "Error_text ErrNotSupported = ''Operation not supported''"
| "Error_text (Errorf msg) = msg"

section \<open>The driver registry (\<open>volume/volume.go\<close>)\<close>

text \<open>
  \<open>DriverParams\<close> is \<open>map[string]string\<close>. A \<open>VolumeDriver\<close> is an interface value:
  \<open>nil\<close>, which is \<open>None\<close>, or an instance, which is \<open>Some d\<close>. The registry never
  looks inside an instance, so \<open>d\<close> is a value of a type parameter \<open>'d\<close> and "the same
  instance" is equality in \<open>'d\<close>. An \<open>InitFunc\<close> returns \<open>(VolumeDriver, error)\<close>, a
  pair in which either component may be \<open>nil\<close>.
\<close>

type_synonym DriverParams = "string \<rightharpoonup> string"

type_synonym 'd VolumeDriver = "'d option"

type_synonym 'd InitFunc = "DriverParams \<Rightarrow> 'd VolumeDriver \<times> error option"

text \<open>
  The package-level variables \<open>instances\<close> and \<open>drivers\<close>. The only thing the
  registry does to an instance is to call its \<open>Shutdown()\<close> method; \<open>invoked\<close>
  records these calls, oldest first. The mutex makes every function below one atomic
  step, which is what a function on the state is.
\<close>

record 'd registry =
  instances :: "string \<rightharpoonup> 'd VolumeDriver"
  drivers :: "string \<rightharpoonup> 'd InitFunc"
  invoked :: "'d list"

text \<open>\<open>func init()\<close>: both maps start empty.\<close>

definition init :: "'d registry" where
  "init = \<lparr>instances = Map.empty, drivers = Map.empty, invoked = []\<rparr>"

text \<open>
  How a call ends: it returns, or it panics. Either way the registry is left in some
  state.
\<close>

datatype 'd outcome = Returns "'d registry" | Panics "'d registry"

fun after :: "'d outcome \<Rightarrow> 'd registry" where
  "after (Returns r) = r"
| "after (Panics r) = r"

text \<open>
  \<open>func Shutdown()\<close>: \<open>for _, v := range instances { v.Shutdown() }\<close>. Go visits
  every entry of the map once, in an order it does not specify; the order is the
  argument \<open>ks\<close>, a list of the keys. A method call on a \<open>nil\<close> interface value is a
  run-time panic: the loop stops there and the entries after it are not visited.
\<close>

fun Shutdown :: "string list \<Rightarrow> 'd registry \<Rightarrow> 'd outcome" where
  "Shutdown [] r = Returns r"
| "Shutdown (k # ks) r =
     (case instances r k of
        None \<Rightarrow> Shutdown ks r
      | Some None \<Rightarrow> Panics r
      | Some (Some v) \<Rightarrow> Shutdown ks (r\<lparr>invoked := invoked r @ [v]\<rparr>))"

text \<open>\<open>func Get(name string) (VolumeDriver, error)\<close>.\<close>

definition Get :: "string \<Rightarrow> 'd registry \<Rightarrow> 'd VolumeDriver \<times> error option" where
  "Get name r =
     (case instances r name of
        Some v \<Rightarrow> (v, None)
      | None \<Rightarrow> (None, Some ErrDriverNotFound))"

text \<open>
  \<open>func New(name string, params DriverParams) (VolumeDriver, error)\<close>. When the
  initializer returns an error, what it returns beside it is dropped; when it returns
  no error, what it returns beside it is stored, \<open>nil\<close> or not.
\<close>

definition New ::
  "string \<Rightarrow> DriverParams \<Rightarrow> 'd registry
   \<Rightarrow> ('d VolumeDriver \<times> error option) \<times> 'd registry" where
  "New name params r =
     (case instances r name of
        Some _ \<Rightarrow> ((None, Some ErrExist), r)
      | None \<Rightarrow>
          (case drivers r name of
             Some initFunc \<Rightarrow>
               (case initFunc params of
                  (driver, Some err) \<Rightarrow> ((None, Some err), r)
                | (driver, None) \<Rightarrow>
                    ((driver, None), r\<lparr>instances := (instances r)(name \<mapsto> driver)\<rparr>))
           | None \<Rightarrow> ((None, Some ErrNotSupported), r)))"

text \<open>\<open>func Register(name string, initFunc InitFunc) error\<close>.\<close>

definition Register :: "string \<Rightarrow> 'd InitFunc \<Rightarrow> 'd registry \<Rightarrow> error option \<times> 'd registry" where
  "Register name initFunc r =
     (case drivers r name of
        Some _ \<Rightarrow> (Some ErrExist, r)
      | None \<Rightarrow> (None, r\<lparr>drivers := (drivers r)(name \<mapsto> initFunc)\<rparr>))"

text \<open>
  A call of one of the four registry functions by a client, and the registry after a
  sequence of such calls.
\<close>

datatype 'd call =
    Call_Register string "'d InitFunc"
  | Call_New string DriverParams
  | Call_Get string
  | Call_Shutdown "string list"

fun step :: "'d call \<Rightarrow> 'd registry \<Rightarrow> 'd registry" where
  "step (Call_Register name initFunc) r = snd (Register name initFunc r)"
| "step (Call_New name params) r = snd (New name params r)"
| "step (Call_Get name) r = r"
| "step (Call_Shutdown ks) r = after (Shutdown ks r)"

fun run :: "'d call list \<Rightarrow> 'd registry \<Rightarrow> 'd registry" where
  "run [] r = r"
| "run (c # cs) r = run cs (step c r)"

section \<open>The cluster database (\<open>cluster/database.go\<close>)\<close>

subsection \<open>The key-value store\<close>

text \<open>
  A Go \<open>[]byte\<close> is a list of characters. \<open>strings.Contains s substr\<close>: some suffix
  of \<open>s\<close> starts with \<open>substr\<close>.
\<close>

type_synonym bytes = string

fun Contains :: "string \<Rightarrow> string \<Rightarrow> bool" where
  "Contains [] substr = (substr = [])"
| "Contains (c # s) substr = (take (length substr) (c # s) = substr \<or> Contains s substr)"

text \<open>\<open>kvdb.KVPair\<close>, the value a store operation returns; the code reads \<open>Value\<close>.\<close>

record 'v KVPair =
  Key :: string
  Value :: 'v

text \<open>
  Modelled from the spec: the store behind \<open>kv.Instance()\<close> is an external
  collaborator, consumed through the contract
  \<open>Get(key) \<rightarrow> (value, error)\<close>, where a well-known error substring denotes
  "key not found", and \<open>Put(key, value, ttl) \<rightarrow> error\<close>, which overwrites the previous
  value. A store state is the stored values and, when the store cannot be reached, the
  error every operation then returns. The cluster database keeps bytes in it
  (\<open>bytes kvdb\<close>).
\<close>

record 'v kvdb =
  data :: "string \<rightharpoonup> 'v"
  fault :: "error option"

text \<open>
  Modelled from the spec: \<open>Get\<close> of the store contract. The message of the error for an
  absent key has the substring the spec calls well known, \<open>100: Key not found\<close>.
\<close>

definition kvdb_Get :: "string \<Rightarrow> 'v kvdb \<Rightarrow> 'v KVPair option \<times> error option" where
  "kvdb_Get key s =
     (case fault s of
        Some e \<Rightarrow> (None, Some e)
      | None \<Rightarrow>
          (case data s key of
             None \<Rightarrow> (None, Some (Errorf (''100: Key not found (/'' @ key @ '')'')))
           | Some v \<Rightarrow> (Some \<lparr>Key = key, Value = v\<rparr>, None)))"

text \<open>
  Modelled from the spec: \<open>Put\<close> of the store contract; the code passes the time to live
  \<open>0\<close>, no expiry.
\<close>

definition kvdb_Put ::
  "string \<Rightarrow> 'v \<Rightarrow> nat \<Rightarrow> 'v kvdb \<Rightarrow> ('v KVPair option \<times> error option) \<times> 'v kvdb" where
  "kvdb_Put key v ttl s =
     (case fault s of
        Some e \<Rightarrow> ((None, Some e), s)
      | None \<Rightarrow> ((Some \<lparr>Key = key, Value = v\<rparr>, None), s\<lparr>data := (data s)(key \<mapsto> v)\<rparr>))"

subsection \<open>The record and its encoding\<close>

text \<open>
  Modelled from the spec: the declarations of \<open>Database\<close>, \<open>Info\<close>, \<open>Node\<close> and
  \<open>Status\<close> of package \<open>cluster\<close> are not among the sources. The spec gives the
  record a cluster \<open>Info\<close> holding a status, one of a small set that includes
  "initializing" (\<open>StatusInit\<close> in the code), and a table from node identifier to
  \<open>Node\<close> record, opaque per deployment: \<open>Node\<close> is the type parameter \<open>'node\<close>, and
  the members of the status set that the sources do not name are \<open>StatusOther\<close>.
\<close>

datatype Status = StatusInit | StatusOther nat

text \<open>Modelled from the spec: \<open>Info\<close>, the cluster-wide status.\<close>

record Info =
  Status :: Status

text \<open>
  Modelled from the spec: \<open>Database\<close>, the aggregate record; the code builds it from the
  fields \<open>Cluster\<close> and \<open>Nodes\<close>, a \<open>map[string]Node\<close>.
\<close>

record 'node Database =
  Cluster :: Info
  Nodes :: "string \<rightharpoonup> 'node"

text \<open>
  \<open>encoding/json\<close> is a library, and what it does depends on the declarations above:
  it is a parameter. \<open>Marshal js db\<close> is \<open>json.Marshal(db)\<close>, the bytes and the error;
  \<open>Unmarshal js b db\<close> is \<open>json.Unmarshal(b, &db)\<close>, given the record \<open>db\<close> as it is
  before the call: the record as it is after the call, and the error.
\<close>

record 'node json =
  Marshal :: "'node Database \<Rightarrow> bytes \<times> error option"
  Unmarshal :: "bytes \<Rightarrow> 'node Database \<Rightarrow> 'node Database \<times> error option"

subsection \<open>Reading and writing\<close>

text \<open>
  \<open>func readDatabase() (Database, error)\<close>. Every \<open>goto done\<close> returns the current
  \<open>db\<close> and \<open>err\<close>. Logging is left out.
\<close>

definition readDatabase :: "'node json \<Rightarrow> bytes kvdb \<Rightarrow> 'node Database \<times> error option" where
  "readDatabase js kvdb =
     (let db = \<lparr>Cluster = \<lparr>Status = StatusInit\<rparr>, Nodes = Map.empty\<rparr>;
          (kv, err) = kvdb_Get ''cluster/database'' kvdb
      in if (case err of
               None \<Rightarrow> False
             | Some e \<Rightarrow> \<not> Contains (Error_text e) ''100: Key not found'')
         then (db, err)
         else (case kv of
                 None \<Rightarrow> (db, None)
               | Some p \<Rightarrow>
                   if Value p = ''{}'' then (db, None)
                   else Unmarshal js (Value p) db))"

text \<open>\<open>func writeDatabase(db *Database) error\<close>, with the store after the call.\<close>

definition writeDatabase ::
  "'node json \<Rightarrow> 'node Database \<Rightarrow> bytes kvdb \<Rightarrow> error option \<times> bytes kvdb" where
  "writeDatabase js db kvdb =
     (case Marshal js db of
        (b, Some err) \<Rightarrow> (Some err, kvdb)
      | (b, None) \<Rightarrow>
          (case kvdb_Put ''cluster/database'' b 0 kvdb of
             ((_, err), kvdb') \<Rightarrow> (err, kvdb')))"

section \<open>The data model (\<open>api/types.go\<close>)\<close>

text \<open>
  Identifiers, file systems and statuses are Go string types. A \<open>uint64\<close> and an
  \<open>int\<close> are only stored and compared with zero here, never computed with: \<open>nat\<close>
  and \<open>int\<close>. A \<open>time.Time\<close> is a number. Field names that two structs share carry
  the struct's name in the second one.
\<close>

type_synonym VolumeID = string
type_synonym SnapID = string
type_synonym Filesystem = string
type_synonym VolumeStatus = string
type_synonym MachineID = string
type_synonym VolumeState = int
type_synonym Labels = "string \<rightharpoonup> string"

definition BadVolumeID :: VolumeID where
  "BadVolumeID = ''''"

text \<open>\<open>VolumePending VolumeState = 1 << iota\<close> and the constants after it.\<close>

definition VolumePending :: VolumeState where
  "VolumePending = 1"

definition VolumeAvailable :: VolumeState where
  "VolumeAvailable = 2"

definition VolumeAttached :: VolumeState where
  "VolumeAttached = 4"

definition VolumeDetached :: VolumeState where
  "VolumeDetached = 8"

definition VolumeError :: VolumeState where
  "VolumeError = 16"

definition VolumeDeleted :: VolumeState where
  "VolumeDeleted = 32"

record VolumeLocator =
  Name :: string
  VolumeLabels :: Labels

record CreateOptions =
  FailIfExists :: bool
  CreateFromSnap :: SnapID

record VolumeSpec =
  Ephemeral :: bool
  Size :: nat
  Format :: Filesystem
  BlockSize :: int
  HALevel :: int
  Cos :: int
  Dedupe :: bool
  SnapshotInterval :: int
  ConfigLabels :: Labels

text \<open>\<open>Spec\<close> is a pointer: \<open>None\<close> is \<open>nil\<close>.\<close>

record Volume =
  ID :: VolumeID
  Locator :: VolumeLocator
  Ctime :: nat
  Spec :: "VolumeSpec option"
  Usage :: nat
  LastScan :: nat
  Format_Volume :: Filesystem
  Status_Volume :: VolumeStatus
  State :: VolumeState
  AttachedOn :: MachineID
  DevicePath :: string
  AttachPath :: string
  ReplicaSet :: "MachineID list"
  Error :: string

section \<open>The NFS driver (\<open>package nfs\<close>)\<close>

subsection \<open>What the driver runs on\<close>

text \<open>
  The operating-system primitives the driver calls. The driver sees of each only the
  error it returns; the state keeps the calls made, oldest first.
\<close>

datatype syscall =
    os_MkdirAll string
  | os_Remove string
  | syscall_Mount string string string
  | syscall_Unmount string

text \<open>
  What the world outside answers during one call of a driver method: the identifier
  \<open>uuid.New()\<close> returns, the times the successive calls of \<open>time.Now()\<close> return, and
  the error (or \<open>nil\<close>) each primitive returns.
\<close>

record env =
  uuid_New :: string
  time_Now :: "nat \<Rightarrow> nat"
  returns :: "syscall \<Rightarrow> error option"

text \<open>
  The state a driver method runs in: the store of the embedded \<open>DefaultEnumerator\<close>,
  made in \<open>Init\<close> from \<open>kvdb.Instance()\<close>, and the primitives called so far.
\<close>

record nfs =
  enumerator :: "Volume kvdb"
  called :: "syscall list"

definition invoke :: "env \<Rightarrow> syscall \<Rightarrow> nfs \<Rightarrow> error option \<times> nfs" where
  "invoke e c s = (returns e c, s\<lparr>called := called s @ [c]\<rparr>)"

text \<open>
  Modelled from the spec: \<open>DefaultEnumerator\<close> and its methods \<open>GetVol\<close>, \<open>CreateVol\<close>
  and \<open>UpdateVol\<close> (package \<open>volume\<close>) are not among the sources. By the spec a driver
  persists one record per volume, found by the volume's identifier; an unknown
  identifier is the not-found condition (\<open>ErrEnoEnt\<close> in the documentation of the
  driver interface), a duplicate is the already-exists condition, and a failure of the
  store is returned to the caller. \<open>GetVol\<close> returns a copy of the record.
\<close>

definition GetVol :: "VolumeID \<Rightarrow> nfs \<Rightarrow> Volume option \<times> error option" where
  "GetVol volumeID s =
     (case fault (enumerator s) of
        Some e \<Rightarrow> (None, Some e)
      | None \<Rightarrow>
          (case data (enumerator s) volumeID of
             None \<Rightarrow> (None, Some ErrEnoEnt)
           | Some v \<Rightarrow> (Some v, None)))"

text \<open>
  Modelled from the spec: \<open>CreateVol\<close> stores the record of a new volume under its \<open>ID\<close>;
  a record already stored under that \<open>ID\<close> is the already-exists condition.
\<close>

definition CreateVol :: "Volume \<Rightarrow> nfs \<Rightarrow> error option \<times> nfs" where
  "CreateVol v s =
     (case fault (enumerator s) of
        Some e \<Rightarrow> (Some e, s)
      | None \<Rightarrow>
          (case data (enumerator s) (ID v) of
             Some _ \<Rightarrow> (Some ErrExist, s)
           | None \<Rightarrow>
               (None, s\<lparr>enumerator := (enumerator s)\<lparr>data := (data (enumerator s))(ID v \<mapsto> v)\<rparr>\<rparr>)))"

text \<open>Modelled from the spec: \<open>UpdateVol\<close> overwrites the record stored under the \<open>ID\<close>.\<close>

definition UpdateVol :: "Volume \<Rightarrow> nfs \<Rightarrow> error option \<times> nfs" where
  "UpdateVol v s =
     (case fault (enumerator s) of
        Some e \<Rightarrow> (Some e, s)
      | None \<Rightarrow>
          (None, s\<lparr>enumerator := (enumerator s)\<lparr>data := (data (enumerator s))(ID v \<mapsto> v)\<rparr>\<rparr>))"

subsection \<open>The driver's methods\<close>

definition nfsMountPath :: string where
  "nfsMountPath = ''/var/lib/openstorage/nfs/''"

text \<open>\<open>strings.TrimSuffix\<close>.\<close>

definition TrimSuffix :: "string \<Rightarrow> string \<Rightarrow> string" where
  "TrimSuffix s suffix =
     (if length suffix \<le> length s \<and> drop (length s - length suffix) s = suffix
      then take (length s - length suffix) s else s)"

text \<open>
  \<open>func (d *driver) Create(locator, opt *api.CreateOptions, spec *api.VolumeSpec)
  (api.VolumeID, error)\<close>. \<open>opt\<close> and \<open>spec\<close> are pointers. The first statement reads
  \<open>spec.Format\<close>: with a \<open>nil\<close> \<open>spec\<close> the method panics, the result \<open>None\<close>. The
  fields the struct literal leaves out have their zero values.
\<close>

definition driver_Create ::
  "env \<Rightarrow> VolumeLocator \<Rightarrow> CreateOptions option \<Rightarrow> VolumeSpec option \<Rightarrow> nfs
   \<Rightarrow> ((VolumeID \<times> error option) \<times> nfs) option" where
  "driver_Create e locator opt spec s =
     (case spec of
        None \<Rightarrow> None
      | Some sp \<Rightarrow>
          if Format sp \<noteq> ''nfs'' \<and> Format sp \<noteq> ''''
          then Some ((BadVolumeID, Some (Errorf (''Unsupported filesystem format: '' @ Format sp))), s)
          else
            (let volumeID = TrimSuffix (uuid_New e) [CHR 0x0A] in
             case invoke e (os_MkdirAll (nfsMountPath @ volumeID)) s of
               (Some err, s1) \<Rightarrow> Some ((BadVolumeID, Some err), s1)
             | (None, s1) \<Rightarrow>
                 (let v = \<lparr>ID = volumeID,
                           Locator = locator,
                           Ctime = time_Now e 0,
                           Spec = spec,
                           Usage = 0,
                           LastScan = time_Now e 1,
                           Format_Volume = ''nfs'',
                           Status_Volume = '''',
                           State = VolumeAvailable,
                           AttachedOn = '''',
                           DevicePath = nfsMountPath @ volumeID,
                           AttachPath = '''',
                           ReplicaSet = [],
                           Error = ''''\<rparr> in
                  case CreateVol v s1 of
                    (Some err, s2) \<Rightarrow> Some ((BadVolumeID, Some err), s2)
                  | (None, s2) \<Rightarrow>
                      (case UpdateVol v s2 of
                         (err, s3) \<Rightarrow> Some ((ID v, err), s3)))))"

text \<open>
  \<open>func (d *driver) Unmount(volumeID api.VolumeID, mountpath string) error\<close>.
  \<open>fmt.Errorf("Device %v not mounted", volumeID)\<close> prints the identifier as it is.
  \<open>GetVol\<close> returns a record or an error; with neither, \<open>v.AttachPath\<close> would panic,
  the result \<open>None\<close>.
\<close>

definition driver_Unmount :: "env \<Rightarrow> VolumeID \<Rightarrow> string \<Rightarrow> nfs \<Rightarrow> (error option \<times> nfs) option" where
  "driver_Unmount e volumeID mountpath s =
     (case GetVol volumeID s of
        (_, Some err) \<Rightarrow> Some (Some err, s)
      | (None, None) \<Rightarrow> None
      | (Some v, None) \<Rightarrow>
          if AttachPath v = ''''
          then Some (Some (Errorf (''Device '' @ volumeID @ '' not mounted'')), s)
          else
            (case invoke e (syscall_Unmount (AttachPath v)) s of
               (Some err, s1) \<Rightarrow> Some (Some err, s1)
             | (None, s1) \<Rightarrow> Some (UpdateVol (v\<lparr>AttachPath := ''''\<rparr>) s1)))"

section \<open>An instance of the encoding\<close>

text \<open>
  The theorems about the cluster database hold for every encoding. To apply them to
  concrete stores, this is one: it writes the status of a record as one character and
  leaves the node table of the record it decodes into as it is, as \<open>json.Unmarshal\<close>
  does with an object that has no \<open>Nodes\<close> member.
\<close>

definition status_json :: "nat json" where
  "status_json =
     \<lparr>Marshal = (\<lambda>db. (case Status (Cluster db) of
                           StatusInit \<Rightarrow> ''I''
                         | StatusOther n \<Rightarrow> ''O'', None)),
      Unmarshal = (\<lambda>b db.
        if b = ''I'' then (db\<lparr>Cluster := \<lparr>Status = StatusInit\<rparr>\<rparr>, None)
        else if b = ''O'' then (db\<lparr>Cluster := \<lparr>Status = StatusOther 0\<rparr>\<rparr>, None)
        else if b = ''{}'' then (db, None)
        else (db, Some (Errorf ''invalid character'')))\<rparr>"

text \<open>
  A second instance, which also writes the node table, one identifier per line in the
  order of the identifiers. It writes an identifier as \<open>json.Marshal\<close> writes a Go
  string, coerced to valid UTF-8: a byte that belongs to no valid encoding is written
  as U+FFFD, the bytes \<open>EF BF BD\<close>. Of these bytes the instance knows \<open>FF\<close>.
\<close>

definition ToValidUTF8 :: "string \<Rightarrow> string" where
  "ToValidUTF8 s =
     concat (map (\<lambda>c. if c = CHR 0xFF then [CHR 0xEF, CHR 0xBF, CHR 0xBD] else [c]) s)"

fun lines_of :: "string \<Rightarrow> string \<Rightarrow> string list" where
  "lines_of acc [] = []"
| "lines_of acc (c # s) =
     (if c = CHR 0x0A then rev acc # lines_of [] s else lines_of (c # acc) s)"

definition replacing_json :: "unit json" where
  "replacing_json =
     \<lparr>Marshal = (\<lambda>db.
        ((case Status (Cluster db) of StatusInit \<Rightarrow> CHR ''I'' | StatusOther n \<Rightarrow> CHR ''O'')
           # concat (map (\<lambda>k. ToValidUTF8 k @ [CHR 0x0A])
                       (sorted_list_of_set (dom (Nodes db)))),
         None)),
      Unmarshal = (\<lambda>b db.
        case b of
          [] \<Rightarrow> (db, Some (Errorf ''unexpected end of input''))
        | c # ids \<Rightarrow>
            if c = CHR ''I'' \<or> c = CHR ''O''
            then (\<lparr>Cluster = \<lparr>Status = (if c = CHR ''I'' then StatusInit else StatusOther 0)\<rparr>,
                   Nodes = fold (\<lambda>k m. m(k \<mapsto> ())) (lines_of [] ids) (Nodes db)\<rparr>, None)
            else if b = ''{}'' then (db, None)
            else (db, Some (Errorf ''invalid character'')))\<rparr>"

section \<open>Properties of the driver registry\<close>

subsection \<open>What the functions leave alone\<close>

lemma Shutdown_instances: "instances (after (Shutdown ks r)) = instances r"
  by (induction ks arbitrary: r) (auto split: option.splits)

lemma Shutdown_drivers: "drivers (after (Shutdown ks r)) = drivers r"
  by (induction ks arbitrary: r) (auto split: option.splits)

text \<open>Without a \<open>nil\<close> instance under the keys visited, the loop runs to its end.\<close>

lemma Shutdown_returns:
  assumes "\<forall>k \<in> set ks. \<exists>d. instances r k = Some (Some d)"
  shows "Shutdown ks r =
           Returns (r\<lparr>invoked := invoked r @ map (\<lambda>k. the (the (instances r k))) ks\<rparr>)"
  using assms
proof (induction ks arbitrary: r)
  case Nil
  then show ?case by simp
next
  case (Cons k ks)
  from Cons.prems obtain d where d: "instances r k = Some (Some d)" by auto
  let ?r = "r\<lparr>invoked := invoked r @ [d]\<rparr>"
  have "\<forall>k \<in> set ks. \<exists>d. instances ?r k = Some (Some d)" using Cons.prems by simp
  from Cons.IH [OF this] d show ?case by simp
qed

text \<open>At the first \<open>nil\<close> instance the loop panics, with the calls made before it.\<close>

lemma Shutdown_panics:
  assumes "\<forall>k \<in> set ks. \<exists>d. instances r k = Some (Some d)" and "instances r k = Some None"
  shows "Shutdown (ks @ k # ks') r =
           Panics (r\<lparr>invoked := invoked r @ map (\<lambda>k. the (the (instances r k))) ks\<rparr>)"
  using assms
proof (induction ks arbitrary: r)
  case Nil
  then show ?case by simp
next
  case (Cons a ks)
  from Cons.prems obtain d where d: "instances r a = Some (Some d)" by auto
  let ?r = "r\<lparr>invoked := invoked r @ [d]\<rparr>"
  have 1: "\<forall>k \<in> set ks. \<exists>d. instances ?r k = Some (Some d)" using Cons.prems by simp
  have 2: "instances ?r k = Some None" using Cons.prems by simp
  from Cons.IH [OF 1 2] d show ?case by simp
qed

text \<open>No function of the registry removes an entry of either map.\<close>

lemma step_instances: "instances r n = Some d \<Longrightarrow> instances (step c r) n = Some d"
  by (cases c)
    (auto simp: Register_def New_def Shutdown_instances split: option.splits prod.splits)

lemma step_drivers: "drivers r n = Some f \<Longrightarrow> drivers (step c r) n = Some f"
  by (cases c)
    (auto simp: Register_def New_def Shutdown_drivers split: option.splits prod.splits)

lemma run_instances: "instances r n = Some d \<Longrightarrow> instances (run cs r) n = Some d"
  by (induction cs arbitrary: r) (auto simp: step_instances)

lemma run_drivers: "drivers r n = Some f \<Longrightarrow> drivers (run cs r) n = Some f"
  by (induction cs arbitrary: r) (auto simp: step_drivers)

text \<open>Counting in the image of a list without repetitions.\<close>

lemma count_list_map_distinct:
  "distinct xs \<Longrightarrow> count_list (map f xs) y = card {x \<in> set xs. f x = y}"
proof (induction xs)
  case Nil
  then show ?case by simp
next
  case (Cons a xs)
  have fin: "finite {x \<in> set xs. f x = y}" by simp
  have notin: "a \<notin> {x \<in> set xs. f x = y}" using Cons.prems by simp
  show ?case
  proof (cases "f a = y")
    case True
    then have "{x \<in> set (a # xs). f x = y} = insert a {x \<in> set xs. f x = y}" by auto
    then show ?thesis using Cons True fin notin by simp
  next
    case False
    then have "{x \<in> set (a # xs). f x = y} = {x \<in> set xs. f x = y}" by auto
    then show ?thesis using Cons False by simp
  qed
qed

subsection \<open>New and Get\<close>

text \<open>
  Claim C4. For every registry \<open>r\<close> and name \<open>n\<close>: \<open>New n params\<close> fails with
  \<open>ErrExist\<close> when \<open>n\<close> has a live instance; otherwise it fails with
  \<open>ErrNotSupported\<close> when no initializer is registered for \<open>n\<close>; otherwise, when the
  registered initializer returns \<open>d\<close> and no error, \<open>New\<close> returns \<open>d\<close> with no error
  and \<open>Get n\<close> returns the same \<open>d\<close> with no error, directly afterwards and after any
  further calls \<open>cs\<close> of the registry's functions. \<open>Get\<close> on a name without a live
  instance fails with \<open>ErrDriverNotFound\<close>.
\<close>

theorem New_then_Get:
  "(instances r n = Some v \<longrightarrow> New n params r = ((None, Some ErrExist), r))
 \<and> (instances r n = None \<and> drivers r n = None \<longrightarrow>
      New n params r = ((None, Some ErrNotSupported), r))
 \<and> (instances r n = None \<and> drivers r n = Some f \<and> f params = (d, None) \<longrightarrow>
      fst (New n params r) = (d, None)
      \<and> Get n (run cs (snd (New n params r))) = (d, None))
 \<and> (instances r m = None \<longrightarrow> Get m r = (None, Some ErrDriverNotFound))"
  by (auto simp: New_def Get_def run_instances)

text \<open>
  The four cases at concrete registries: a registry where \<open>nfs\<close> is live, the initial
  registry, and a registry where \<open>nfs\<close> is registered and not yet live.
\<close>

theorem New_then_Get_witness:
  "instances \<lparr>instances = [''nfs'' \<mapsto> Some (7::nat)],
              drivers = [''nfs'' \<mapsto> (\<lambda>p. (Some 7, None))], invoked = []\<rparr> ''nfs''
     = Some (Some 7)
 \<and> New ''nfs'' Map.empty
     \<lparr>instances = [''nfs'' \<mapsto> Some (7::nat)],
      drivers = [''nfs'' \<mapsto> (\<lambda>p. (Some 7, None))], invoked = []\<rparr>
     = ((None, Some ErrExist),
        \<lparr>instances = [''nfs'' \<mapsto> Some 7],
         drivers = [''nfs'' \<mapsto> (\<lambda>p. (Some 7, None))], invoked = []\<rparr>)
 \<and> New ''demo'' Map.empty (init :: nat registry) = ((None, Some ErrNotSupported), init)
 \<and> fst (New ''nfs'' Map.empty
       \<lparr>instances = Map.empty,
        drivers = [''nfs'' \<mapsto> (\<lambda>p. (Some (7::nat), None))], invoked = []\<rparr>)
     = (Some 7, None)
 \<and> Get ''nfs'' (run [Call_Shutdown [''nfs''], Call_New ''nfs'' Map.empty]
       (snd (New ''nfs'' Map.empty
         \<lparr>instances = Map.empty,
          drivers = [''nfs'' \<mapsto> (\<lambda>p. (Some (7::nat), None))], invoked = []\<rparr>)))
     = (Some 7, None)
 \<and> Get ''demo'' (init :: nat registry) = (None, Some ErrDriverNotFound)"
proof -
  let ?live = "\<lparr>instances = [''nfs'' \<mapsto> Some (7::nat)],
                drivers = [''nfs'' \<mapsto> (\<lambda>p. (Some 7, None))], invoked = []\<rparr>"
  let ?reg = "\<lparr>instances = Map.empty,
               drivers = [''nfs'' \<mapsto> (\<lambda>p. (Some (7::nat), None))], invoked = []\<rparr>"
  have a: "instances ?live ''nfs'' = Some (Some 7)" by simp
  have b: "instances (init :: nat registry) ''demo'' = None
         \<and> drivers (init :: nat registry) ''demo'' = None"
    by (simp add: init_def)
  have c: "instances ?reg ''nfs'' = None \<and> drivers ?reg ''nfs'' = Some (\<lambda>p. (Some 7, None))
         \<and> (\<lambda>p::DriverParams. (Some 7 :: nat option, None :: error option)) Map.empty
             = (Some 7, None)"
    by simp
  note t1 = New_then_Get [where r = ?live and n = "''nfs''" and v = "Some 7"
      and params = Map.empty, THEN conjunct1, rule_format, OF a]
  note t2 = New_then_Get [where r = "init :: nat registry" and n = "''demo''"
      and params = Map.empty, THEN conjunct2, THEN conjunct1, rule_format, OF b]
  note t3 = New_then_Get [where r = ?reg and n = "''nfs''" and params = Map.empty
      and f = "\<lambda>p. (Some 7, None)" and d = "Some 7"
      and cs = "[Call_Shutdown [''nfs''], Call_New ''nfs'' Map.empty]",
      THEN conjunct2, THEN conjunct2, THEN conjunct1, rule_format, OF c]
  note t4 = New_then_Get [where r = "init :: nat registry" and m = "''demo''",
      THEN conjunct2, THEN conjunct2, THEN conjunct2, rule_format, OF conjunct1 [OF b]]
  show ?thesis using a t1 t2 t3 t4 by simp
qed

subsection \<open>Register\<close>

text \<open>
  Claim C5. For every name \<open>n\<close>: once \<open>Register n f\<close> has succeeded, every further
  \<open>Register n g\<close>, after any calls \<open>cs\<close> of the registry's functions in between, fails
  with \<open>ErrExist\<close> and returns the registry as it was, where the initializer
  registered for \<open>n\<close> is still \<open>f\<close>.
\<close>

theorem Register_twice:
  assumes "Register n f r = (None, r1)"
  shows "Register n g (run cs r1) = (Some ErrExist, run cs r1)
       \<and> drivers (run cs r1) n = Some f"
proof -
  have "drivers r1 n = Some f"
    using assms by (auto simp: Register_def split: option.splits)
  then have "drivers (run cs r1) n = Some f" by (rule run_drivers)
  then show ?thesis by (simp add: Register_def)
qed

theorem Register_twice_witness:
  "Register ''nfs'' (\<lambda>p. (Some (7::nat), None)) init
     = (None, \<lparr>instances = Map.empty,
               drivers = [''nfs'' \<mapsto> (\<lambda>p. (Some 7, None))], invoked = []\<rparr>)
 \<and> Register ''nfs'' (\<lambda>p. (Some 8, None))
     (run [Call_New ''nfs'' Map.empty, Call_Register ''btrfs'' (\<lambda>p. (Some 9, None))]
        \<lparr>instances = Map.empty,
         drivers = [''nfs'' \<mapsto> (\<lambda>p. (Some (7::nat), None))], invoked = []\<rparr>)
     = (Some ErrExist,
        run [Call_New ''nfs'' Map.empty, Call_Register ''btrfs'' (\<lambda>p. (Some 9, None))]
          \<lparr>instances = Map.empty,
           drivers = [''nfs'' \<mapsto> (\<lambda>p. (Some 7, None))], invoked = []\<rparr>)
 \<and> drivers
     (run [Call_New ''nfs'' Map.empty, Call_Register ''btrfs'' (\<lambda>p. (Some 9, None))]
        \<lparr>instances = Map.empty,
         drivers = [''nfs'' \<mapsto> (\<lambda>p. (Some (7::nat), None))], invoked = []\<rparr>) ''nfs''
     = Some (\<lambda>p. (Some 7, None))"
proof -
  have h: "Register ''nfs'' (\<lambda>p. (Some (7::nat), None)) init
     = (None, \<lparr>instances = Map.empty,
               drivers = [''nfs'' \<mapsto> (\<lambda>p. (Some 7, None))], invoked = []\<rparr>)"
    by (simp add: Register_def init_def)
  show ?thesis
    using h Register_twice [OF h, of "\<lambda>p. (Some 8, None)"
        "[Call_New ''nfs'' Map.empty, Call_Register ''btrfs'' (\<lambda>p. (Some 9, None))]"]
    by blast
qed

subsection \<open>An initializer that fails\<close>

text \<open>
  Claim C6. For every name \<open>n\<close> with no live instance whose registered initializer \<open>f\<close>
  returns an error \<open>e\<close> on \<open>params\<close>, whatever it returns beside the error: \<open>New n
  params\<close> returns \<open>e\<close> and no instance and leaves the registry as it was. So \<open>Get n\<close>
  still fails afterwards, and a later \<open>New n params'\<close> succeeds whenever \<open>f\<close> returns
  no error on \<open>params'\<close>. (With a live instance for \<open>n\<close> the initializer is not called
  at all: claim C4.)
\<close>

theorem New_init_error:
  assumes "instances r n = None" and "drivers r n = Some f" and "f params = (d0, Some e)"
  shows "New n params r = ((None, Some e), r)
       \<and> Get n (snd (New n params r)) = (None, Some ErrDriverNotFound)
       \<and> (f params' = (d, None) \<longrightarrow>
            fst (New n params' (snd (New n params r))) = (d, None))"
  using assms by (simp add: New_def Get_def)

text \<open>
  The initializer of the witness does what \<open>nfs.Init\<close> does first: it fails without
  a \<open>path\<close> parameter.
\<close>

theorem New_init_error_witness:
  "New ''nfs'' Map.empty
     \<lparr>instances = Map.empty,
      drivers = [''nfs'' \<mapsto> (\<lambda>p. case p ''path'' of
                                 None \<Rightarrow> (None, Some (Errorf ''No NFS path provided''))
                               | Some _ \<Rightarrow> (Some (7::nat), None))],
      invoked = []\<rparr>
     = ((None, Some (Errorf ''No NFS path provided'')),
        \<lparr>instances = Map.empty,
         drivers = [''nfs'' \<mapsto> (\<lambda>p. case p ''path'' of
                                    None \<Rightarrow> (None, Some (Errorf ''No NFS path provided''))
                                  | Some _ \<Rightarrow> (Some 7, None))],
         invoked = []\<rparr>)
 \<and> fst (New ''nfs'' [''path'' \<mapsto> ''/export'']
      (snd (New ''nfs'' Map.empty
         \<lparr>instances = Map.empty,
          drivers = [''nfs'' \<mapsto> (\<lambda>p. case p ''path'' of
                                     None \<Rightarrow> (None, Some (Errorf ''No NFS path provided''))
                                   | Some _ \<Rightarrow> (Some (7::nat), None))],
          invoked = []\<rparr>)))
     = (Some 7, None)"
proof -
  let ?f = "\<lambda>p :: DriverParams. case p ''path'' of
              None \<Rightarrow> (None :: nat option, Some (Errorf ''No NFS path provided''))
            | Some _ \<Rightarrow> (Some (7::nat), None)"
  let ?r = "\<lparr>instances = Map.empty, drivers = [''nfs'' \<mapsto> ?f], invoked = []\<rparr>"
  have h1: "instances ?r ''nfs'' = None" by simp
  have h2: "drivers ?r ''nfs'' = Some ?f" by simp
  have h3: "?f Map.empty = (None, Some (Errorf ''No NFS path provided''))" by simp
  have h4: "?f [''path'' \<mapsto> ''/export''] = (Some 7, None)" by simp
  show ?thesis
    using h4 New_init_error [OF h1 h2 h3, of "[''path'' \<mapsto> ''/export'']" "Some 7"]
    by blast
qed

subsection \<open>Shutdown\<close>

text \<open>
  Claim C9 says that \<open>Shutdown\<close> calls the method \<open>Shutdown()\<close> of every live instance
  exactly once, in every registry state. Two reachable registries show what the code
  does instead. In the first the initializers of \<open>a\<close> and \<open>b\<close> return the same
  instance \<open>7\<close>, and the loop, which goes by entries, calls it twice. In the second
  the initializer of \<open>a\<close> returns \<open>nil\<close> and no error, \<open>New\<close> stores the \<open>nil\<close>, and
  the loop panics at it.
\<close>

theorem Shutdown_counterexample:
  "run [Call_Register ''a'' (\<lambda>p. (Some (7::nat), None)),
        Call_Register ''b'' (\<lambda>p. (Some 7, None)),
        Call_New ''a'' Map.empty, Call_New ''b'' Map.empty] init
     = \<lparr>instances = [''a'' \<mapsto> Some 7, ''b'' \<mapsto> Some 7],
        drivers = [''a'' \<mapsto> (\<lambda>p. (Some 7, None)), ''b'' \<mapsto> (\<lambda>p. (Some 7, None))],
        invoked = []\<rparr>
 \<and> Shutdown [''a'', ''b'']
       \<lparr>instances = [''a'' \<mapsto> Some (7::nat), ''b'' \<mapsto> Some 7],
        drivers = [''a'' \<mapsto> (\<lambda>p. (Some 7, None)), ''b'' \<mapsto> (\<lambda>p. (Some 7, None))],
        invoked = []\<rparr>
     = Returns
       \<lparr>instances = [''a'' \<mapsto> Some 7, ''b'' \<mapsto> Some 7],
        drivers = [''a'' \<mapsto> (\<lambda>p. (Some 7, None)), ''b'' \<mapsto> (\<lambda>p. (Some 7, None))],
        invoked = [7, 7]\<rparr>
 \<and> count_list [7, 7] (7::nat) = 2
 \<and> run [Call_Register ''a'' (\<lambda>p. (None, None)), Call_New ''a'' Map.empty]
       (init :: nat registry)
     = \<lparr>instances = [''a'' \<mapsto> None], drivers = [''a'' \<mapsto> (\<lambda>p. (None, None))],
        invoked = []\<rparr>
 \<and> Shutdown [''a'']
       \<lparr>instances = [''a'' \<mapsto> None :: nat option],
        drivers = [''a'' \<mapsto> (\<lambda>p. (None, None))], invoked = []\<rparr>
     = Panics
       \<lparr>instances = [''a'' \<mapsto> None], drivers = [''a'' \<mapsto> (\<lambda>p. (None, None))],
        invoked = []\<rparr>"
  by (simp add: init_def Register_def New_def)

text \<open>
  Claim C9, amended. For every registry \<open>r\<close> and every order \<open>ks\<close> in which the loop
  visits the keys of \<open>instances\<close>, each key once: \<open>Shutdown\<close> leaves \<open>instances\<close> and
  \<open>drivers\<close> as they were; and when no live instance is \<open>nil\<close>, it returns after
  calling the method \<open>Shutdown()\<close> once per entry of \<open>instances\<close>: as many calls as
  entries, and every instance \<open>d\<close> is called once for each name it is live under.
\<close>

theorem Shutdown_calls_each_entry_once:
  assumes "distinct ks" and "set ks = dom (instances r)"
  shows "instances (after (Shutdown ks r)) = instances r
       \<and> drivers (after (Shutdown ks r)) = drivers r
       \<and> (None \<notin> ran (instances r) \<longrightarrow>
            (\<exists>calls. Shutdown ks r = Returns (r\<lparr>invoked := invoked r @ calls\<rparr>)
               \<and> length calls = card (dom (instances r))
               \<and> (\<forall>d. count_list calls d = card {n. instances r n = Some (Some d)})))"
proof -
  let ?calls = "map (\<lambda>k. the (the (instances r k))) ks"
  have len: "length ?calls = card (dom (instances r))"
    using assms distinct_card [of ks] by simp
  have ret: "Shutdown ks r = Returns (r\<lparr>invoked := invoked r @ ?calls\<rparr>)"
    and cnt: "\<forall>d. count_list ?calls d = card {n. instances r n = Some (Some d)}"
    if nonnil: "None \<notin> ran (instances r)"
  proof -
    have some: "\<forall>k \<in> set ks. \<exists>d. instances r k = Some (Some d)"
    proof
      fix k assume "k \<in> set ks"
      then obtain x where x: "instances r k = Some x" using assms(2) by auto
      then have "x \<in> ran (instances r)" by (auto simp: ran_def)
      with nonnil have "x \<noteq> None" by (cases x) simp_all
      with x show "\<exists>d. instances r k = Some (Some d)" by auto
    qed
    then show "Shutdown ks r = Returns (r\<lparr>invoked := invoked r @ ?calls\<rparr>)"
      by (rule Shutdown_returns)
    show "\<forall>d. count_list ?calls d = card {n. instances r n = Some (Some d)}"
    proof
      fix d
      have "{k \<in> set ks. the (the (instances r k)) = d} = {n. instances r n = Some (Some d)}"
        using assms(2) some by force
      then show "count_list ?calls d = card {n. instances r n = Some (Some d)}"
        using assms(1) by (simp add: count_list_map_distinct)
    qed
  qed
  show ?thesis
    using len ret cnt Shutdown_instances [of ks r] Shutdown_drivers [of ks r] by blast
qed

text \<open>
  Three entries, two of them the same instance: three calls, two of them of that
  instance.
\<close>

theorem Shutdown_calls_each_entry_once_witness:
  "distinct [''a'', ''b'', ''c'']
 \<and> set [''a'', ''b'', ''c'']
     = dom (instances \<lparr>instances = [''a'' \<mapsto> Some (7::nat), ''b'' \<mapsto> Some 9, ''c'' \<mapsto> Some 7],
                       drivers = Map.empty, invoked = []\<rparr>)
 \<and> None \<notin> ran (instances
       \<lparr>instances = [''a'' \<mapsto> Some (7::nat), ''b'' \<mapsto> Some 9, ''c'' \<mapsto> Some 7],
        drivers = Map.empty, invoked = []\<rparr>)
 \<and> Shutdown [''a'', ''b'', ''c'']
       \<lparr>instances = [''a'' \<mapsto> Some (7::nat), ''b'' \<mapsto> Some 9, ''c'' \<mapsto> Some 7],
        drivers = Map.empty, invoked = []\<rparr>
     = Returns
       \<lparr>instances = [''a'' \<mapsto> Some 7, ''b'' \<mapsto> Some 9, ''c'' \<mapsto> Some 7],
        drivers = Map.empty, invoked = [7, 9, 7]\<rparr>
 \<and> card {n. instances
       \<lparr>instances = [''a'' \<mapsto> Some (7::nat), ''b'' \<mapsto> Some 9, ''c'' \<mapsto> Some 7],
        drivers = Map.empty, invoked = []\<rparr> n = Some (Some 7)} = 2"
proof -
  let ?r = "\<lparr>instances = [''a'' \<mapsto> Some (7::nat), ''b'' \<mapsto> Some 9, ''c'' \<mapsto> Some 7],
             drivers = Map.empty, invoked = []\<rparr>"
  have h1: "distinct [''a'', ''b'', ''c'']" by simp
  have h2: "set [''a'', ''b'', ''c''] = dom (instances ?r)" by auto
  have h3: "None \<notin> ran (instances ?r)" by (auto simp: ran_def)
  have i: "Shutdown [''a'', ''b'', ''c''] ?r = Returns (?r\<lparr>invoked := [7, 9, 7]\<rparr>)" by simp
  from Shutdown_calls_each_entry_once [OF h1 h2, THEN conjunct2, THEN conjunct2, rule_format, OF h3]
  obtain calls where
    c: "Shutdown [''a'', ''b'', ''c''] ?r = Returns (?r\<lparr>invoked := invoked ?r @ calls\<rparr>)"
    and n: "\<forall>d. count_list calls d = card {n. instances ?r n = Some (Some d)}"
    by blast
  from c i have "calls = [7, 9, 7]" by simp
  with n have "card {n. instances ?r n = Some (Some 7)} = count_list [7, 9, 7] (7::nat)"
    by metis
  then have k: "card {n. instances ?r n = Some (Some 7)} = 2" by simp
  show ?thesis using h1 h2 h3 i k by simp
qed

section \<open>Properties of the cluster database\<close>

lemma Contains_append: "Contains (substr @ rest) substr"
proof (cases "substr @ rest")
  case Nil
  then show ?thesis by simp
next
  case (Cons c s)
  have "take (length substr) (substr @ rest) = substr" by simp
  then show ?thesis using Cons by simp
qed

text \<open>A store that can be reached answers \<open>Get\<close> of an absent key with the recognized error.\<close>

lemma kvdb_Get_absent:
  assumes "fault s = None" and "data s key = None"
  shows "\<exists>e. kvdb_Get key s = (None, Some e) \<and> Contains (Error_text e) ''100: Key not found''"
  using assms Contains_append [of "''100: Key not found''" "'' (/'' @ key @ '')''"]
  by (simp add: kvdb_Get_def del: Contains.simps)

lemma kvdb_Get_present:
  assumes "fault s = None" and "data s key = Some b"
  shows "kvdb_Get key s = (Some \<lparr>Key = key, Value = b\<rparr>, None)"
  using assms by (simp add: kvdb_Get_def)

lemma writeDatabase_ok:
  assumes "writeDatabase js db s = (None, s')"
  shows "snd (Marshal js db) = None \<and> fault s = None
       \<and> s' = s\<lparr>data := (data s)(''cluster/database'' \<mapsto> fst (Marshal js db))\<rparr>"
  using assms unfolding writeDatabase_def kvdb_Put_def
  by (auto split: prod.splits option.splits)

subsection \<open>A cluster that was never initialized\<close>

text \<open>
  Claim C1. For every store state whose \<open>Get\<close> of the key \<open>cluster/database\<close> returns
  no value and an error with the text \<open>100: Key not found\<close> in its message, and for
  every store state whose \<open>Get\<close> returns the bytes \<open>{}\<close> and no error, \<open>readDatabase\<close>
  returns the record with status \<open>StatusInit\<close> and an empty node table, and no error.
\<close>

theorem readDatabase_uninitialized:
  assumes "(\<exists>e. kvdb_Get ''cluster/database'' s = (None, Some e)
                \<and> Contains (Error_text e) ''100: Key not found'')
         \<or> (\<exists>p. kvdb_Get ''cluster/database'' s = (Some p, None) \<and> Value p = ''{}'')"
  shows "readDatabase js s = (\<lparr>Cluster = \<lparr>Status = StatusInit\<rparr>, Nodes = Map.empty\<rparr>, None)"
  using assms unfolding readDatabase_def by (auto simp del: Contains.simps)

text \<open>The two store states of the claim: an empty store, and a store holding \<open>{}\<close>.\<close>

theorem readDatabase_uninitialized_witness:
  "readDatabase status_json \<lparr>data = Map.empty, fault = None\<rparr>
     = (\<lparr>Cluster = \<lparr>Status = StatusInit\<rparr>, Nodes = Map.empty\<rparr>, None)
 \<and> readDatabase status_json \<lparr>data = [''cluster/database'' \<mapsto> ''{}''], fault = None\<rparr>
     = (\<lparr>Cluster = \<lparr>Status = StatusInit\<rparr>, Nodes = Map.empty\<rparr>, None)"
proof -
  let ?absent = "\<lparr>data = Map.empty, fault = None\<rparr> :: bytes kvdb"
  let ?marker = "\<lparr>data = [''cluster/database'' \<mapsto> ''{}''], fault = None\<rparr> :: bytes kvdb"
  have a: "\<exists>e. kvdb_Get ''cluster/database'' ?absent = (None, Some e)
             \<and> Contains (Error_text e) ''100: Key not found''"
    by (rule kvdb_Get_absent) simp_all
  have m: "\<exists>p. kvdb_Get ''cluster/database'' ?marker = (Some p, None) \<and> Value p = ''{}''"
    by (simp add: kvdb_Get_def)
  show ?thesis
    using readDatabase_uninitialized [OF disjI1 [OF a], of status_json]
      readDatabase_uninitialized [OF disjI2 [OF m], of status_json]
    by blast
qed

subsection \<open>A record that does not decode\<close>

text \<open>
  Claim C2. For every store state whose \<open>Get\<close> of the key \<open>cluster/database\<close> returns
  bytes other than \<open>{}\<close> on which \<open>json.Unmarshal\<close> into the record returns an error,
  \<open>readDatabase\<close> returns that error: what it returns is what \<open>json.Unmarshal\<close>
  left, never the fresh record with a \<open>nil\<close> error.
\<close>

theorem readDatabase_corrupt:
  assumes "kvdb_Get ''cluster/database'' s = (Some p, None)"
    and "Value p \<noteq> ''{}''"
    and "snd (Unmarshal js (Value p) \<lparr>Cluster = \<lparr>Status = StatusInit\<rparr>, Nodes = Map.empty\<rparr>)
           = Some e"
  shows "snd (readDatabase js s) = Some e"
  using assms unfolding readDatabase_def by simp

theorem readDatabase_corrupt_witness:
  "snd (readDatabase status_json \<lparr>data = [''cluster/database'' \<mapsto> ''{Cluster''], fault = None\<rparr>)
     = Some (Errorf ''invalid character'')"
proof -
  let ?s = "\<lparr>data = [''cluster/database'' \<mapsto> ''{Cluster''], fault = None\<rparr> :: bytes kvdb"
  let ?p = "\<lparr>Key = ''cluster/database'', Value = ''{Cluster''\<rparr>"
  have g: "kvdb_Get ''cluster/database'' ?s = (Some ?p, None)"
    by (simp add: kvdb_Get_def)
  have v: "Value ?p \<noteq> ''{}''" by simp
  have u: "snd (Unmarshal status_json (Value ?p)
                 \<lparr>Cluster = \<lparr>Status = StatusInit\<rparr>, Nodes = Map.empty\<rparr>)
             = Some (Errorf ''invalid character'')"
    by (simp add: status_json_def)
  show ?thesis using readDatabase_corrupt [OF g v u] .
qed

subsection \<open>Writing, then reading\<close>

text \<open>
  Claim C3 says that for every record \<open>db\<close> a successful \<open>writeDatabase db\<close> makes the
  next \<open>readDatabase\<close> return \<open>db\<close>. The record here has one node, whose identifier is
  the byte \<open>FF\<close>. \<open>writeDatabase\<close> succeeds: the encoding writes the identifier as
  U+FFFD, as \<open>json.Marshal\<close> does. \<open>readDatabase\<close> on the store it leaves returns no
  error and a record whose node has the identifier U+FFFD: not \<open>db\<close>.
\<close>

theorem write_then_read_counterexample:
  "writeDatabase replacing_json
     \<lparr>Cluster = \<lparr>Status = StatusInit\<rparr>, Nodes = [[CHR 0xFF] \<mapsto> ()]\<rparr>
     \<lparr>data = Map.empty, fault = None\<rparr>
     = (None, \<lparr>data = [''cluster/database'' \<mapsto> [CHR ''I'', CHR 0xEF, CHR 0xBF, CHR 0xBD, CHR 0x0A]],
               fault = None\<rparr>)
 \<and> readDatabase replacing_json
     \<lparr>data = [''cluster/database'' \<mapsto> [CHR ''I'', CHR 0xEF, CHR 0xBF, CHR 0xBD, CHR 0x0A]],
      fault = None\<rparr>
     = (\<lparr>Cluster = \<lparr>Status = StatusInit\<rparr>, Nodes = [[CHR 0xEF, CHR 0xBF, CHR 0xBD] \<mapsto> ()]\<rparr>, None)
 \<and> readDatabase replacing_json
     \<lparr>data = [''cluster/database'' \<mapsto> [CHR ''I'', CHR 0xEF, CHR 0xBF, CHR 0xBD, CHR 0x0A]],
      fault = None\<rparr>
     \<noteq> (\<lparr>Cluster = \<lparr>Status = StatusInit\<rparr>, Nodes = [[CHR 0xFF] \<mapsto> ()]\<rparr>, None)"
proof -
  let ?b = "[CHR ''I'', CHR 0xEF, CHR 0xBF, CHR 0xBD, CHR 0x0A]"
  let ?db = "\<lparr>Cluster = \<lparr>Status = StatusInit\<rparr>, Nodes = [[CHR 0xFF] \<mapsto> ()]\<rparr>"
  let ?db' = "\<lparr>Cluster = \<lparr>Status = StatusInit\<rparr>, Nodes = [[CHR 0xEF, CHR 0xBF, CHR 0xBD] \<mapsto> ()]\<rparr>"
  let ?s' = "\<lparr>data = [''cluster/database'' \<mapsto> ?b], fault = None\<rparr>"
  have m: "Marshal replacing_json ?db = (?b, None)"
    by (simp add: replacing_json_def ToValidUTF8_def)
  have w: "writeDatabase replacing_json ?db \<lparr>data = Map.empty, fault = None\<rparr> = (None, ?s')"
    by (simp add: writeDatabase_def kvdb_Put_def m)
  have u: "Unmarshal replacing_json ?b \<lparr>Cluster = \<lparr>Status = StatusInit\<rparr>, Nodes = Map.empty\<rparr>
             = (?db', None)"
    by (simp add: replacing_json_def)
  have r: "readDatabase replacing_json ?s' = (?db', None)"
    by (simp add: readDatabase_def kvdb_Get_def u)
  have "Nodes ?db' [CHR 0xFF] \<noteq> Nodes ?db [CHR 0xFF]" by simp
  then have d: "?db' \<noteq> ?db" by metis
  show ?thesis using w r d by simp
qed

text \<open>
  Claim C3, amended. For every record \<open>db\<close> that the encoding gives back, that is,
  the bytes \<open>json.Marshal\<close> gives for \<open>db\<close> decode into the fresh record as \<open>db\<close>, and
  these bytes are the marker \<open>{}\<close> only if \<open>db\<close> is the fresh record: if
  \<open>writeDatabase db\<close> returns no error, leaving the store \<open>s'\<close>, then \<open>readDatabase\<close>
  returns \<open>db\<close> and no error on every store \<open>s''\<close> that can be reached and holds under
  \<open>cluster/database\<close> what \<open>s'\<close> holds (no write to that key in between).
\<close>

theorem write_then_read:
  assumes w: "writeDatabase js db s = (None, s')"
    and same: "data s'' ''cluster/database'' = data s' ''cluster/database''"
    and up: "fault s'' = None"
    and rt: "Unmarshal js (fst (Marshal js db))
               \<lparr>Cluster = \<lparr>Status = StatusInit\<rparr>, Nodes = Map.empty\<rparr> = (db, None)"
    and marker: "fst (Marshal js db) = ''{}'' \<longrightarrow>
               db = \<lparr>Cluster = \<lparr>Status = StatusInit\<rparr>, Nodes = Map.empty\<rparr>"
  shows "readDatabase js s'' = (db, None)"
proof -
  let ?b = "fst (Marshal js db)"
  from writeDatabase_ok [OF w]
  have s': "s' = s\<lparr>data := (data s)(''cluster/database'' \<mapsto> ?b)\<rparr>" by blast
  have "data s'' ''cluster/database'' = Some ?b"
    using same s' by simp
  then have g: "kvdb_Get ''cluster/database'' s''
                  = (Some \<lparr>Key = ''cluster/database'', Value = ?b\<rparr>, None)"
    using up by (rule kvdb_Get_present [rotated])
  show ?thesis
  proof (cases "?b = ''{}''")
    case True
    with marker have "db = \<lparr>Cluster = \<lparr>Status = StatusInit\<rparr>, Nodes = Map.empty\<rparr>"
      by simp
    with True g show ?thesis by (simp add: readDatabase_def)
  next
    case False
    with g rt show ?thesis by (simp add: readDatabase_def)
  qed
qed

text \<open>
  The encoding of the counterexample gives back a record whose node has the identifier
  \<open>node-1\<close>.
\<close>

theorem write_then_read_witness:
  "writeDatabase replacing_json
     \<lparr>Cluster = \<lparr>Status = StatusOther 0\<rparr>, Nodes = [''node-1'' \<mapsto> ()]\<rparr>
     \<lparr>data = Map.empty, fault = None\<rparr>
     = (None, \<lparr>data = [''cluster/database'' \<mapsto> ''Onode-1'' @ [CHR 0x0A]], fault = None\<rparr>)
 \<and> readDatabase replacing_json
     \<lparr>data = [''cluster/database'' \<mapsto> ''Onode-1'' @ [CHR 0x0A]], fault = None\<rparr>
     = (\<lparr>Cluster = \<lparr>Status = StatusOther 0\<rparr>, Nodes = [''node-1'' \<mapsto> ()]\<rparr>, None)"
proof -
  let ?db = "\<lparr>Cluster = \<lparr>Status = StatusOther 0\<rparr>, Nodes = [''node-1'' \<mapsto> ()]\<rparr>"
  let ?s = "\<lparr>data = Map.empty, fault = None\<rparr> :: bytes kvdb"
  let ?s' = "\<lparr>data = [''cluster/database'' \<mapsto> ''Onode-1'' @ [CHR 0x0A]], fault = None\<rparr>"
  have m: "Marshal replacing_json ?db = (''Onode-1'' @ [CHR 0x0A], None)"
    by (simp add: replacing_json_def ToValidUTF8_def)
  have w: "writeDatabase replacing_json ?db ?s = (None, ?s')"
    by (simp add: writeDatabase_def kvdb_Put_def m)
  have same: "data ?s' ''cluster/database'' = data ?s' ''cluster/database''" by simp
  have up: "fault ?s' = None" by simp
  have rt: "Unmarshal replacing_json (fst (Marshal replacing_json ?db))
              \<lparr>Cluster = \<lparr>Status = StatusInit\<rparr>, Nodes = Map.empty\<rparr> = (?db, None)"
    unfolding m by (simp add: replacing_json_def)
  have marker: "fst (Marshal replacing_json ?db) = ''{}'' \<longrightarrow>
               ?db = \<lparr>Cluster = \<lparr>Status = StatusInit\<rparr>, Nodes = Map.empty\<rparr>"
    unfolding m by simp
  show ?thesis
    using w write_then_read [OF w same up rt marker] by blast
qed

section \<open>Properties of the NFS driver\<close>

lemma UpdateVol_stored:
  assumes "UpdateVol v s = (None, s')"
  shows "GetVol (ID v) s' = (Some v, None)"
  using assms by (auto simp: UpdateVol_def GetVol_def split: option.splits)

lemma UpdateVol_called: "called (snd (UpdateVol v s)) = called s"
  by (auto simp: UpdateVol_def split: option.splits)

text \<open>Neither method reads its argument \<open>opt\<close> or \<open>mountpath\<close>.\<close>

lemma driver_Create_opt:
  "driver_Create e locator opt spec s = driver_Create e locator opt' spec s"
  by (simp add: driver_Create_def)

lemma driver_Unmount_mountpath:
  "driver_Unmount e volumeID mountpath s = driver_Unmount e volumeID mountpath' s"
  by (simp add: driver_Unmount_def)

subsection \<open>Create and FailIfExists\<close>

text \<open>
  Claim C7, which the code does not meet. On a driver without volumes, \<open>Create\<close> is
  called twice with the same locator and \<open>FailIfExists\<close> set. The first call makes
  volume \<open>vol-1\<close>. The second call finds a volume whose locator matches; the claim
  (and the documentation of \<open>Create\<close> in the driver interface) has it fail with
  \<open>ErrExist\<close>. It returns the new identifier \<open>vol-2\<close> and no error, and the store then
  holds two volumes with that locator.
\<close>

theorem Create_FailIfExists_duplicate:
  "let spec = \<lparr>Ephemeral = False, Size = 1024, Format = ''nfs'', BlockSize = 0, HALevel = 0,
               Cos = 0, Dedupe = False, SnapshotInterval = 0, ConfigLabels = Map.empty\<rparr>;
       locator = \<lparr>Name = ''data'', VolumeLabels = Map.empty\<rparr>;
       opt = \<lparr>FailIfExists = True, CreateFromSnap = ''''\<rparr>;
       e1 = \<lparr>uuid_New = ''vol-1'', time_Now = (\<lambda>k. 10 + k), returns = (\<lambda>c. None)\<rparr>;
       e2 = \<lparr>uuid_New = ''vol-2'', time_Now = (\<lambda>k. 20 + k), returns = (\<lambda>c. None)\<rparr>;
       s0 = \<lparr>enumerator = \<lparr>data = Map.empty, fault = None\<rparr>, called = []\<rparr>
   in \<exists>s1 s2.
        driver_Create e1 locator (Some opt) (Some spec) s0 = Some ((''vol-1'', None), s1)
      \<and> map_option Locator (data (enumerator s1) ''vol-1'') = Some locator
      \<and> driver_Create e2 locator (Some opt) (Some spec) s1 = Some ((''vol-2'', None), s2)
      \<and> map_option Locator (data (enumerator s2) ''vol-1'') = Some locator
      \<and> map_option Locator (data (enumerator s2) ''vol-2'') = Some locator"
  by (simp add: driver_Create_def invoke_def CreateVol_def UpdateVol_def TrimSuffix_def Let_def)

subsection \<open>Unmount of a volume that is not mounted\<close>

text \<open>
  Claim C8. For every volume \<open>v\<close> that \<open>GetVol\<close> finds under \<open>volumeID\<close> and whose
  \<open>AttachPath\<close> is empty, \<open>Unmount volumeID mountpath\<close> returns the error
  \<open>Device <volumeID> not mounted\<close> and the state after the call is the state before
  it: no record is written and no primitive is called.
\<close>

theorem Unmount_not_mounted:
  assumes "GetVol volumeID s = (Some v, None)" and "AttachPath v = ''''"
  shows "driver_Unmount e volumeID mountpath s =
           Some (Some (Errorf (''Device '' @ volumeID @ '' not mounted'')), s)"
  using assms by (simp add: driver_Unmount_def)

theorem Unmount_not_mounted_witness:
  "driver_Unmount \<lparr>uuid_New = '''', time_Now = (\<lambda>k. 0), returns = (\<lambda>c. None)\<rparr> ''vol-1'' ''/mnt/a''
     \<lparr>enumerator =
        \<lparr>data = [''vol-1'' \<mapsto>
           \<lparr>ID = ''vol-1'', Locator = \<lparr>Name = ''data'', VolumeLabels = Map.empty\<rparr>, Ctime = 10,
            Spec = None, Usage = 0, LastScan = 11, Format_Volume = ''nfs'', Status_Volume = '''',
            State = VolumeAvailable, AttachedOn = '''',
            DevicePath = ''/var/lib/openstorage/nfs/vol-1'', AttachPath = '''',
            ReplicaSet = [], Error = ''''\<rparr>],
         fault = None\<rparr>,
      called = []\<rparr>
   = Some (Some (Errorf ''Device vol-1 not mounted''),
     \<lparr>enumerator =
        \<lparr>data = [''vol-1'' \<mapsto>
           \<lparr>ID = ''vol-1'', Locator = \<lparr>Name = ''data'', VolumeLabels = Map.empty\<rparr>, Ctime = 10,
            Spec = None, Usage = 0, LastScan = 11, Format_Volume = ''nfs'', Status_Volume = '''',
            State = VolumeAvailable, AttachedOn = '''',
            DevicePath = ''/var/lib/openstorage/nfs/vol-1'', AttachPath = '''',
            ReplicaSet = [], Error = ''''\<rparr>],
         fault = None\<rparr>,
      called = []\<rparr>)"
proof -
  let ?v = "\<lparr>ID = ''vol-1'', Locator = \<lparr>Name = ''data'', VolumeLabels = Map.empty\<rparr>, Ctime = 10,
            Spec = None, Usage = 0, LastScan = 11, Format_Volume = ''nfs'', Status_Volume = '''',
            State = VolumeAvailable, AttachedOn = '''',
            DevicePath = ''/var/lib/openstorage/nfs/vol-1'', AttachPath = '''',
            ReplicaSet = [], Error = ''''\<rparr>"
  let ?s = "\<lparr>enumerator = \<lparr>data = [''vol-1'' \<mapsto> ?v], fault = None\<rparr>, called = []\<rparr>"
  have g: "GetVol ''vol-1'' ?s = (Some ?v, None)" by (simp add: GetVol_def)
  have a: "AttachPath ?v = ''''" by simp
  show ?thesis
    using Unmount_not_mounted [OF g a,
        of "\<lparr>uuid_New = '''', time_Now = (\<lambda>k. 0), returns = (\<lambda>c. None)\<rparr>" "''/mnt/a''"]
    by simp
qed

subsection \<open>Unmount of a mounted volume\<close>

text \<open>
  Claim C10. For every volume \<open>v\<close> that \<open>GetVol\<close> finds under \<open>volumeID\<close> and whose
  \<open>AttachPath\<close> is not empty, \<open>Unmount volumeID mountpath\<close> does the same for every
  \<open>mountpath\<close>: the one primitive it calls is \<open>syscall.Unmount\<close> of \<open>v\<close>'s
  \<open>AttachPath\<close>, and when it returns no error the record stored under \<open>v\<close>'s \<open>ID\<close> is
  \<open>v\<close> with an empty \<open>AttachPath\<close>.
\<close>

theorem Unmount_uses_AttachPath:
  assumes "GetVol volumeID s = (Some v, None)" and "AttachPath v \<noteq> ''''"
  shows "driver_Unmount e volumeID mountpath' s = driver_Unmount e volumeID mountpath s
       \<and> (\<exists>err s'. driver_Unmount e volumeID mountpath s = Some (err, s')
            \<and> called s' = called s @ [syscall_Unmount (AttachPath v)]
            \<and> (err = None \<longrightarrow> GetVol (ID v) s' = (Some (v\<lparr>AttachPath := ''''\<rparr>), None)))"
proof (cases "returns e (syscall_Unmount (AttachPath v))")
  case (Some err)
  then show ?thesis using assms by (simp add: driver_Unmount_def invoke_def)
next
  case None
  let ?s1 = "s\<lparr>called := called s @ [syscall_Unmount (AttachPath v)]\<rparr>"
  let ?v = "v\<lparr>AttachPath := ''''\<rparr>"
  obtain err s' where u: "UpdateVol ?v ?s1 = (err, s')" by (cases "UpdateVol ?v ?s1")
  have r: "driver_Unmount e volumeID mountpath s = Some (err, s')"
    using assms None u by (simp add: driver_Unmount_def invoke_def)
  have c: "called s' = called s @ [syscall_Unmount (AttachPath v)]"
    using UpdateVol_called [of ?v ?s1] u by simp
  have g: "err = None \<longrightarrow> GetVol (ID v) s' = (Some ?v, None)"
    using UpdateVol_stored [of ?v ?s1 s'] u by auto
  show ?thesis using r c g driver_Unmount_mountpath by blast
qed

text \<open>
  A volume mounted at \<open>/mnt/a\<close>; the caller passes \<open>/mnt/b\<close>. The path unmounted is
  \<open>/mnt/a\<close>.
\<close>

theorem Unmount_uses_AttachPath_witness:
  "let v = \<lparr>ID = ''vol-1'', Locator = \<lparr>Name = ''data'', VolumeLabels = Map.empty\<rparr>, Ctime = 10,
            Spec = None, Usage = 0, LastScan = 11, Format_Volume = ''nfs'', Status_Volume = '''',
            State = VolumeAvailable, AttachedOn = '''',
            DevicePath = ''/var/lib/openstorage/nfs/vol-1'', AttachPath = ''/mnt/a'',
            ReplicaSet = [], Error = ''''\<rparr>;
       s = \<lparr>enumerator = \<lparr>data = [''vol-1'' \<mapsto> v], fault = None\<rparr>, called = []\<rparr>;
       e = \<lparr>uuid_New = '''', time_Now = (\<lambda>k. 0), returns = (\<lambda>c. None)\<rparr>
   in GetVol ''vol-1'' s = (Some v, None)
    \<and> driver_Unmount e ''vol-1'' ''/mnt/b'' s
        = Some (None, \<lparr>enumerator = \<lparr>data = [''vol-1'' \<mapsto> v\<lparr>AttachPath := ''''\<rparr>], fault = None\<rparr>,
                       called = [syscall_Unmount ''/mnt/a'']\<rparr>)"
proof -
  let ?v = "\<lparr>ID = ''vol-1'', Locator = \<lparr>Name = ''data'', VolumeLabels = Map.empty\<rparr>, Ctime = 10,
            Spec = None, Usage = 0, LastScan = 11, Format_Volume = ''nfs'', Status_Volume = '''',
            State = VolumeAvailable, AttachedOn = '''',
            DevicePath = ''/var/lib/openstorage/nfs/vol-1'', AttachPath = ''/mnt/a'',
            ReplicaSet = [], Error = ''''\<rparr>"
  let ?s = "\<lparr>enumerator = \<lparr>data = [''vol-1'' \<mapsto> ?v], fault = None\<rparr>, called = []\<rparr>"
  let ?e = "\<lparr>uuid_New = '''', time_Now = (\<lambda>k. 0), returns = (\<lambda>c. None)\<rparr>"
  have g: "GetVol ''vol-1'' ?s = (Some ?v, None)" by (simp add: GetVol_def)
  have a: "AttachPath ?v \<noteq> ''''" by simp
  have r: "driver_Unmount ?e ''vol-1'' ''/mnt/b'' ?s
        = Some (None, \<lparr>enumerator = \<lparr>data = [''vol-1'' \<mapsto> ?v\<lparr>AttachPath := ''''\<rparr>], fault = None\<rparr>,
                       called = [syscall_Unmount ''/mnt/a'']\<rparr>)"
    by (simp add: driver_Unmount_def GetVol_def invoke_def UpdateVol_def)
  show ?thesis
    using g r Unmount_uses_AttachPath [OF g a, of ?e "''/mnt/a''" "''/mnt/b''"]
    by (simp add: Let_def)
qed

end
